theory Spec2Isabelle
  imports Main
begin

section \<open>Python values and exceptions\<close>

text \<open>
  The front end handles what \<^verbatim>\<open>response.json()\<close> gives (JSON decoded into Python
  objects) and \<^verbatim>\<open>None\<close>. A dict is an association list in insertion order; a key is
  looked up with \<open>map_of\<close>. A float is kept as an opaque pair (mantissa, exponent): no
  function below computes with one.
\<close>

datatype pyval =
    PNone
  | PBool bool
  | PInt int
  | PFloat int int
  | PStr string
  | PList "pyval list"
  | PDict "(string \<times> pyval) list"

text \<open>
  The exceptions the modelled code can meet. Every one of them is a subclass of Python's
  \<^verbatim>\<open>Exception\<close>, so an \<^verbatim>\<open>except Exception\<close> clause catches each of them.
  \<open>RequestException\<close> stands for the transport failures of the \<^verbatim>\<open>requests\<close> library
  (connection refused, timeout, ...), \<open>HTTPError\<close> for the one raised by
  \<^verbatim>\<open>raise_for_status\<close>, \<open>OSError\<close> for a failure of \<^verbatim>\<open>open\<close> or of a directory listing.
\<close>

datatype py_error =
    KeyError string
  | TypeError
  | IndexError
  | JSONDecodeError
  | RequestException string
  | HTTPError int
  | OSError string
  | BadZipFile
  | UnicodeDecodeError

text \<open>
  What the code shows to the user or prints: \<^verbatim>\<open>st.error(f"Error: {status}")\<close>,
  \<^verbatim>\<open>st.error(f"Error: {status} {response.json()}")\<close>, \<^verbatim>\<open>st.error(f"Error: {str(e)}")\<close> and
  \<^verbatim>\<open>print(f"No ... found, continuing...\nException: {str(e)}")\<close>. The pieces that are
  formatted into the message are kept, not the formatted text.
\<close>

datatype message =
    ErrorStatus int
  | ErrorStatusJson int pyval
  | ErrorException py_error
  | PrintedException py_error

section \<open>Option lists for the select boxes\<close>

text \<open>
  \<^verbatim>\<open>obj[key]\<close> with a string key: a dict gives the value or raises \<^verbatim>\<open>KeyError\<close>; a list
  or a string takes integer indices only, and \<^verbatim>\<open>None\<close>, a bool and a number are not
  subscriptable: all of these raise \<^verbatim>\<open>TypeError\<close>.
\<close>

fun subscript :: "pyval \<Rightarrow> string \<Rightarrow> py_error + pyval" where
  "subscript (PDict d) k = (case map_of d k of None \<Rightarrow> Inl (KeyError k) | Some v \<Rightarrow> Inr v)"
| "subscript _ k = Inl TypeError"

text \<open>
  \<^verbatim>\<open>xs + obj\<close> for a list \<open>xs\<close>: concatenation when \<open>obj\<close> is a list, \<^verbatim>\<open>TypeError\<close>
  ("can only concatenate list") otherwise.
\<close>

fun list_concat :: "pyval list \<Rightarrow> pyval \<Rightarrow> py_error + pyval list" where
  "list_concat xs (PList ys) = Inr (xs @ ys)"
| "list_concat xs _ = Inl TypeError"

text \<open>
  \<^verbatim>\<open>
  def show_index_options(indexes: dict) -> list[str]:
      options_indexes = [""]
      try:
          options_indexes = options_indexes + indexes["index_name"]
      except Exception as e:
          print(f"No indexes found, continuing...\nException: {str(e)}")
      return options_indexes
  \<close>
  The result is the returned list (or the exception that leaves the function) and what
  was printed.
\<close>

definition show_index_options :: "pyval \<Rightarrow> (py_error + pyval list) \<times> message list" where
  "show_index_options indexes =
     (let options_indexes = [PStr '''']
      in case (case subscript indexes ''index_name'' of
                 Inl e \<Rightarrow> Inl e
               | Inr v \<Rightarrow> list_concat options_indexes v) of
           Inr options_indexes' \<Rightarrow> (Inr options_indexes', [])
         | Inl e \<Rightarrow> (Inr options_indexes, [PrintedException e]))"

text \<open>
  The class \<^verbatim>\<open>IndexPipeline\<close>: its constructor stores its four arguments.
  \<open>containers\<close> is what \<^verbatim>\<open>get_storage_container_names\<close> returned, a dict or \<^verbatim>\<open>None\<close>.
\<close>

record IndexPipeline =
  containers :: pyval
  pipeline_api_url :: string
  pipeline_headers :: "(string \<times> string) list"
  pipeline_upload_headers :: "(string \<times> string) list"

text \<open>
  \<^verbatim>\<open>
  def _parse_container_names(self) -> list:
      container_names = [""]
      try:
          container_names = container_names + self.containers["storage_name"]
      except Exception as e:
          print(f"No data containers found, continuing...\nException: {str(e)}")
      return container_names
  \<close>
  (An Isabelle name cannot start with an underscore.)
\<close>

definition parse_container_names ::
  "IndexPipeline \<Rightarrow> (py_error + pyval list) \<times> message list" where
  "parse_container_names self =
     (let container_names = [PStr '''']
      in case (case subscript (containers self) ''storage_name'' of
                 Inl e \<Rightarrow> Inl e
               | Inr v \<Rightarrow> list_concat container_names v) of
           Inr container_names' \<Rightarrow> (Inr container_names', [])
         | Inl e \<Rightarrow> (Inr container_names, [PrintedException e]))"

section \<open>The HTTP client wrapper\<close>

text \<open>
  A request as \<^verbatim>\<open>requests.get\<close> and \<^verbatim>\<open>requests.post\<close> receive it: the URL and the keyword
  arguments \<^verbatim>\<open>headers\<close>, \<^verbatim>\<open>params\<close>, \<^verbatim>\<open>json\<close>, \<^verbatim>\<open>files\<close> and \<^verbatim>\<open>stream\<close> (absent ones
  at their defaults). A multipart file is its form field name and the text of the file.
\<close>

datatype http_method = GET | POST

record request =
  req_method :: http_method
  req_url :: string
  req_headers :: "(string \<times> string) list"
  req_params :: "(string \<times> pyval) list"
  req_json :: "pyval option"
  req_files :: "(string \<times> string) list option"
  req_stream :: bool

text \<open>
  A response: its status code, what \<^verbatim>\<open>response.json()\<close> decodes the body to (\<open>None\<close> when
  the body is not JSON, where the method raises), the chunks \<^verbatim>\<open>iter_content()\<close> yields
  and the exception that ends the stream early, if any.
\<close>

record response =
  status_code :: int
  json_body :: "pyval option"
  chunks :: "string list"
  stream_error :: "py_error option"

text \<open>
  The remote service and the network between: what a request is answered with, a response
  or a transport exception. The wrappers take it as a parameter.
\<close>

type_synonym network = "request \<Rightarrow> py_error + response"

definition json_of :: "response \<Rightarrow> py_error + pyval" where
  "json_of r = (case json_body r of None \<Rightarrow> Inl JSONDecodeError | Some v \<Rightarrow> Inr v)"

text \<open>
  Python's \<^verbatim>\<open>str.lower\<close>. A Python string is kept as its UTF-8 bytes. On ASCII text
  (no byte with the top bit set) the method maps the letters A to Z to a to z and keeps
  every other character. On any other text it lower-cases every cased code point: that is
  Python's own table, taken as the parameter \<open>unicode_lower\<close>.
\<close>

definition lower_char :: "char \<Rightarrow> char" where
  "lower_char c =
     (case map_of (zip ''ABCDEFGHIJKLMNOPQRSTUVWXYZ'' ''abcdefghijklmnopqrstuvwxyz'') c of
        Some l \<Rightarrow> l
      | None \<Rightarrow> c)"

definition is_ascii :: "string \<Rightarrow> bool" where
  "is_ascii s = list_all (\<lambda>c. \<not> digit7 c) s"

definition lower :: "(string \<Rightarrow> string) \<Rightarrow> string \<Rightarrow> string" where
  "lower unicode_lower s = (if is_ascii s then map lower_char s else unicode_lower s)"

text \<open>
  \<^verbatim>\<open>
  def get_storage_container_names(api_url: str, headers: dict) -> dict | None:
      try:
          response = requests.get(f"{api_url}/data", headers=headers)
          if response.status_code == 200:
              return response.json()
          else:
              st.error(f"Error: {response.status_code}")
              return None
      except Exception as e:
          st.error(f"Error: {str(e)}")
          return None
  \<close>
  Each wrapper gives what it returns (\<open>Inl\<close> would be an exception leaving the function)
  and the messages it shows.
\<close>

definition get_storage_container_names ::
  "network \<Rightarrow> string \<Rightarrow> (string \<times> string) list \<Rightarrow> (py_error + pyval) \<times> message list" where
  "get_storage_container_names net api_url headers =
     (case net \<lparr>req_method = GET, req_url = api_url @ ''/data'', req_headers = headers,
                req_params = [], req_json = None, req_files = None, req_stream = False\<rparr> of
        Inl e \<Rightarrow> (Inr PNone, [ErrorException e])
      | Inr response \<Rightarrow>
          if status_code response = 200 then
            (case json_of response of
               Inl e \<Rightarrow> (Inr PNone, [ErrorException e])
             | Inr v \<Rightarrow> (Inr v, []))
          else (Inr PNone, [ErrorStatus (status_code response)]))"

text \<open>\<^verbatim>\<open>get_entity_data\<close>: the same body on \<^verbatim>\<open>f"{api_url}/index/config/entity"\<close>.\<close>

definition get_entity_data ::
  "network \<Rightarrow> string \<Rightarrow> (string \<times> string) list \<Rightarrow> (py_error + pyval) \<times> message list" where
  "get_entity_data net api_url headers =
     (case net \<lparr>req_method = GET, req_url = api_url @ ''/index/config/entity'',
                req_headers = headers, req_params = [], req_json = None, req_files = None,
                req_stream = False\<rparr> of
        Inl e \<Rightarrow> (Inr PNone, [ErrorException e])
      | Inr response \<Rightarrow>
          if status_code response = 200 then
            (case json_of response of
               Inl e \<Rightarrow> (Inr PNone, [ErrorException e])
             | Inr v \<Rightarrow> (Inr v, []))
          else (Inr PNone, [ErrorStatus (status_code response)]))"

text \<open>
  \<^verbatim>\<open>
  @st.cache_data
  def get_indexes_data(api_url: str, headers: dict) -> dict | None:
      ...                                   # the same body on f"{api_url}/index"
  \<close>
  \<open>get_indexes_data_body\<close> is the function under the decorator.
\<close>

definition get_indexes_data_body ::
  "network \<Rightarrow> string \<Rightarrow> (string \<times> string) list \<Rightarrow> (py_error + pyval) \<times> message list" where
  "get_indexes_data_body net api_url headers =
     (case net \<lparr>req_method = GET, req_url = api_url @ ''/index'', req_headers = headers,
                req_params = [], req_json = None, req_files = None, req_stream = False\<rparr> of
        Inl e \<Rightarrow> (Inr PNone, [ErrorException e])
      | Inr response \<Rightarrow>
          if status_code response = 200 then
            (case json_of response of
               Inl e \<Rightarrow> (Inr PNone, [ErrorException e])
             | Inr v \<Rightarrow> (Inr v, []))
          else (Inr PNone, [ErrorStatus (status_code response)]))"

text \<open>
  The decorator \<^verbatim>\<open>st.cache_data\<close> of Streamlit keeps, for the process, the value the
  function returned for each tuple of argument values, with the messages it showed. When
  the arguments are in the cache the body does not run: no request is sent, the stored
  value is returned and the stored messages are shown again. Otherwise the body runs, and
  what it returns is stored (a \<^verbatim>\<open>None\<close> like any other value; nothing is stored when
  the body raises). There is no expiry and nothing in the code clears the cache. The
  cache is a state: the function takes it and gives the new one.
\<close>

type_synonym index_cache = "string \<times> (string \<times> string) list \<rightharpoonup> pyval \<times> message list"

definition get_indexes_data ::
  "index_cache \<Rightarrow> network \<Rightarrow> string \<Rightarrow> (string \<times> string) list \<Rightarrow>
   ((py_error + pyval) \<times> message list) \<times> index_cache" where
  "get_indexes_data cache net api_url headers =
     (case cache (api_url, headers) of
        Some (v, shown) \<Rightarrow> ((Inr v, shown), cache)
      | None \<Rightarrow>
          (case get_indexes_data_body net api_url headers of
             (Inr v, shown) \<Rightarrow> ((Inr v, shown), cache((api_url, headers) \<mapsto> (v, shown)))
           | (Inl e, shown) \<Rightarrow> ((Inl e, shown), cache)))"

text \<open>
  \<^verbatim>\<open>
  async def query_index(index_name: list[str], query_type: str, query: str,
                        api_url: str, headers: dict):
      try:
          request = {"index_name": index_name, "query": query,
                     "reformat_context_data": True}
          response = requests.post(
              f"{api_url}/query/{query_type.lower()}", headers=headers, json=request)
          if response.status_code == 200:
              return response.json()
          else:
              st.error(f"Error: {response.status_code} {response.json()}")
              return None
      except Exception as e:
          st.error(f"Error: {str(e)}")
          return None
  \<close>
  \<open>query_request\<close> is the request the body builds and posts (with
  \<open>unicode_lower\<close>, see \<open>lower\<close>). In the error branch
  \<^verbatim>\<open>response.json()\<close> is evaluated inside the \<^verbatim>\<open>try\<close>, so a body that is not JSON ends
  in the \<^verbatim>\<open>except\<close> clause. The model is of the coroutine's body: nothing in it awaits.
\<close>

definition query_request ::
  "(string \<Rightarrow> string) \<Rightarrow> string list \<Rightarrow> string \<Rightarrow> string \<Rightarrow> string \<Rightarrow>
   (string \<times> string) list \<Rightarrow> request" where
  "query_request unicode_lower index_name query_type query api_url headers =
     \<lparr>req_method = POST, req_url = api_url @ ''/query/'' @ lower unicode_lower query_type,
      req_headers = headers, req_params = [],
      req_json = Some (PDict [(''index_name'', PList (map PStr index_name)),
                              (''query'', PStr query),
                              (''reformat_context_data'', PBool True)]),
      req_files = None, req_stream = False\<rparr>"

definition query_index ::
  "(string \<Rightarrow> string) \<Rightarrow> network \<Rightarrow> string list \<Rightarrow> string \<Rightarrow> string \<Rightarrow> string \<Rightarrow>
   (string \<times> string) list \<Rightarrow> (py_error + pyval) \<times> message list" where
  "query_index unicode_lower net index_name query_type query api_url headers =
     (case net (query_request unicode_lower index_name query_type query api_url headers) of
        Inl e \<Rightarrow> (Inr PNone, [ErrorException e])
      | Inr response \<Rightarrow>
          if status_code response = 200 then
            (case json_of response of
               Inl e \<Rightarrow> (Inr PNone, [ErrorException e])
             | Inr v \<Rightarrow> (Inr v, []))
          else
            (case json_of response of
               Inl e \<Rightarrow> (Inr PNone, [ErrorException e])
             | Inr v \<Rightarrow> (Inr PNone, [ErrorStatusJson (status_code response) v])))"

text \<open>
  \<^verbatim>\<open>get_source_entity\<close>: a GET of \<^verbatim>\<open>f"{api_url}/source/entity/{index_name}/{entity_id}"\<close>
  with the error handling of \<^verbatim>\<open>query_index\<close>.
\<close>

definition get_source_entity ::
  "network \<Rightarrow> string \<Rightarrow> string \<Rightarrow> string \<Rightarrow> (string \<times> string) list \<Rightarrow>
   (py_error + pyval) \<times> message list" where
  "get_source_entity net index_name entity_id api_url headers =
     (case net \<lparr>req_method = GET,
                req_url = api_url @ ''/source/entity/'' @ index_name @ ''/'' @ entity_id,
                req_headers = headers, req_params = [], req_json = None, req_files = None,
                req_stream = False\<rparr> of
        Inl e \<Rightarrow> (Inr PNone, [ErrorException e])
      | Inr response \<Rightarrow>
          if status_code response = 200 then
            (case json_of response of
               Inl e \<Rightarrow> (Inr PNone, [ErrorException e])
             | Inr v \<Rightarrow> (Inr v, []))
          else
            (case json_of response of
               Inl e \<Rightarrow> (Inr PNone, [ErrorException e])
             | Inr v \<Rightarrow> (Inr PNone, [ErrorStatusJson (status_code response) v])))"

text \<open>
  The prompt arguments of \<^verbatim>\<open>build_index\<close> (\<^verbatim>\<open>str | StringIO = None\<close>): absent, a file
  path, or an in-memory text buffer with its text.
\<close>

datatype prompt_source = NoFile | FilePath string | StringIO string

text \<open>
  One of the three statements
  \<^verbatim>\<open>
  if entity_extraction_prompt_filepath:
      prompt_files["entity_extraction_prompt"] = (
          open(entity_extraction_prompt_filepath, "r")
          if isinstance(entity_extraction_prompt_filepath, str)
          else entity_extraction_prompt_filepath)
  \<close>
  \<^verbatim>\<open>None\<close> and the empty string are false, a buffer object is true. \<open>open_r\<close> is
  \<^verbatim>\<open>open(path, "r")\<close> on the local file system: the text of the file, or the exception
  raised. The three keys differ, so an assignment adds an entry.
\<close>

fun add_prompt_file ::
  "(string \<Rightarrow> py_error + string) \<Rightarrow> string \<Rightarrow> prompt_source \<Rightarrow> (string \<times> string) list \<Rightarrow>
   py_error + (string \<times> string) list" where
  "add_prompt_file open_r field NoFile prompt_files = Inr prompt_files"
| "add_prompt_file open_r field (FilePath p) prompt_files =
     (if p = [] then Inr prompt_files
      else case open_r p of
             Inl e \<Rightarrow> Inl e
           | Inr text \<Rightarrow> Inr (prompt_files @ [(field, text)]))"
| "add_prompt_file open_r field (StringIO text) prompt_files =
     Inr (prompt_files @ [(field, text)])"

text \<open>
  \<^verbatim>\<open>
  def build_index(api_url, headers, storage_name, index_name,
                  entity_extraction_prompt_filepath = None,
                  community_prompt_filepath = None,
                  summarize_description_prompt_filepath = None) -> requests.Response:
      url = api_url + "/index"
      prompt_files = dict()
      ...                                   # the three statements above
      return requests.post(
          url,
          files=prompt_files if len(prompt_files) > 0 else None,
          params={"index_name": index_name, "storage_name": storage_name},
          headers=headers)
  \<close>
  There is no \<^verbatim>\<open>try\<close> and no test of the status: the function returns the response
  object, and an exception of \<^verbatim>\<open>open\<close> or of \<^verbatim>\<open>requests.post\<close> leaves it.
\<close>

definition build_index ::
  "(string \<Rightarrow> py_error + string) \<Rightarrow> network \<Rightarrow> string \<Rightarrow> (string \<times> string) list \<Rightarrow>
   string \<Rightarrow> string \<Rightarrow> prompt_source \<Rightarrow> prompt_source \<Rightarrow> prompt_source \<Rightarrow>
   py_error + response" where
  "build_index open_r net api_url headers storage_name index_name
     entity_extraction_prompt_filepath community_prompt_filepath
     summarize_description_prompt_filepath =
     (case add_prompt_file open_r ''entity_extraction_prompt''
             entity_extraction_prompt_filepath [] of
        Inl e \<Rightarrow> Inl e
      | Inr files1 \<Rightarrow>
     (case add_prompt_file open_r ''community_report_prompt''
             community_prompt_filepath files1 of
        Inl e \<Rightarrow> Inl e
      | Inr files2 \<Rightarrow>
     (case add_prompt_file open_r ''summarize_descriptions_prompt''
             summarize_description_prompt_filepath files2 of
        Inl e \<Rightarrow> Inl e
      | Inr prompt_files \<Rightarrow>
          net \<lparr>req_method = POST, req_url = api_url @ ''/index'', req_headers = headers,
               req_params = [(''index_name'', PStr index_name),
                             (''storage_name'', PStr storage_name)],
               req_json = None,
               req_files = (if length prompt_files > 0 then Some prompt_files else None),
               req_stream = False\<rparr>)))"

section \<open>The prompt bundle manager\<close>

text \<open>The files written in the working directory: file name to bytes.\<close>

type_synonym disk = "string \<rightharpoonup> string"

text \<open>
  \<^verbatim>\<open>Response.raise_for_status()\<close> of the \<^verbatim>\<open>requests\<close> library raises \<^verbatim>\<open>HTTPError\<close> for a
  client error (400 to 499) and for a server error (500 to 599) and returns otherwise.
\<close>

definition raise_for_status :: "response \<Rightarrow> py_error + unit" where
  "raise_for_status r =
     (if 400 \<le> status_code r \<and> status_code r < 600 then Inl (HTTPError (status_code r))
      else Inr ())"

text \<open>
  \<^verbatim>\<open>
  def _generate_prompts(api_url, headers, storage_name,
                        zip_file_name = "prompts.zip", limit = 5) -> None:
      url = api_url + "/index/config/prompts"
      params = {"storage_name": storage_name, "limit": limit}
      with requests.get(url, params=params, headers=headers, stream=True) as r:
          r.raise_for_status()
          with open(zip_file_name, "wb") as f:
              for chunk in r.iter_content():
                  f.write(chunk)
  \<close>
  Opening the file for writing empties it; every chunk is appended; an exception of the
  stream leaves the function after the chunks received so far were written. Nothing is
  caught. The working directory is taken to be writable. \<open>prompts_request\<close> is the
  request the body sends.
\<close>

definition prompts_request ::
  "string \<Rightarrow> (string \<times> string) list \<Rightarrow> string \<Rightarrow> int \<Rightarrow> request" where
  "prompts_request api_url headers storage_name limit =
     \<lparr>req_method = GET, req_url = api_url @ ''/index/config/prompts'',
      req_headers = headers,
      req_params = [(''storage_name'', PStr storage_name), (''limit'', PInt limit)],
      req_json = None, req_files = None, req_stream = True\<rparr>"

definition generate_prompts ::
  "network \<Rightarrow> string \<Rightarrow> (string \<times> string) list \<Rightarrow> string \<Rightarrow> string \<Rightarrow> int \<Rightarrow> disk \<Rightarrow>
   (py_error + unit) \<times> disk" where
  "generate_prompts net api_url headers storage_name zip_file_name limit d =
     (case net (prompts_request api_url headers storage_name limit) of
        Inl e \<Rightarrow> (Inl e, d)
      | Inr r \<Rightarrow>
          (case raise_for_status r of
             Inl e \<Rightarrow> (Inl e, d)
           | Inr _ \<Rightarrow>
               (let d' = d(zip_file_name \<mapsto> fold (\<lambda>chunk written. written @ chunk) (chunks r) [])
                in case stream_error r of
                     Some e \<Rightarrow> (Inl e, d')
                   | None \<Rightarrow> (Inr (), d'))))"

text \<open>
  \<^verbatim>\<open>
  def _extract_prompts_from_zip(zip_file_name: str = "prompts.zip"):
      with ZipFile(zip_file_name, "r") as zip_ref:
          zip_ref.extractall()
  \<close>
  The two calls into Python's \<^verbatim>\<open>zipfile\<close> module are parameters: \<open>ZipFile\<close> opens the
  named file and reads the archive's directory, or raises (\<^verbatim>\<open>BadZipFile\<close> when the file is
  no zip archive); \<open>extractall\<close> writes the members and may raise on the way. Nothing is
  caught.
\<close>

definition extract_prompts_from_zip ::
  "(disk \<Rightarrow> string \<Rightarrow> py_error + 'z) \<Rightarrow> ('z \<Rightarrow> disk \<Rightarrow> (py_error + unit) \<times> disk) \<Rightarrow>
   string \<Rightarrow> disk \<Rightarrow> (py_error + unit) \<times> disk" where
  "extract_prompts_from_zip ZipFile extractall zip_file_name d =
     (case ZipFile d zip_file_name of
        Inl e \<Rightarrow> (Inl e, d)
      | Inr zip_ref \<Rightarrow> extractall zip_ref d)"

text \<open>
  \<^verbatim>\<open>
  def generate_and_extract_prompts(api_url, headers, storage_name,
                                   zip_file_name = "prompts.zip", limit = 5) -> None:
      _generate_prompts(api_url, headers, storage_name, zip_file_name, limit)
      _extract_prompts_from_zip(zip_file_name)
  \<close>
\<close>

definition generate_and_extract_prompts ::
  "(disk \<Rightarrow> string \<Rightarrow> py_error + 'z) \<Rightarrow> ('z \<Rightarrow> disk \<Rightarrow> (py_error + unit) \<times> disk) \<Rightarrow>
   network \<Rightarrow> string \<Rightarrow> (string \<times> string) list \<Rightarrow> string \<Rightarrow> string \<Rightarrow> int \<Rightarrow> disk \<Rightarrow>
   (py_error + unit) \<times> disk" where
  "generate_and_extract_prompts ZipFile extractall net api_url headers storage_name
     zip_file_name limit d =
     (case generate_prompts net api_url headers storage_name zip_file_name limit d of
        (Inl e, d') \<Rightarrow> (Inl e, d')
      | (Inr _, d') \<Rightarrow> extract_prompts_from_zip ZipFile extractall zip_file_name d')"

text \<open>
  An entry of a directory: its file name and what \<^verbatim>\<open>open_file\<close> gives for it,
  \<^verbatim>\<open>
  def open_file(file_path: str | Path):
      with open(file_path, "r") as file:
          text = file.read()
      return text
  \<close>
  the text read, or the exception raised (the entry is a directory, cannot be read or
  decoded). A file system maps a directory to the entries \<^verbatim>\<open>Path(dir).iterdir()\<close> yields,
  in the order it yields them, or to the exception it raises.
\<close>

record path =
  name :: string
  open_file :: "py_error + string"

type_synonym filesys = "string \<Rightarrow> py_error + path list"

definition startswith :: "string \<Rightarrow> string \<Rightarrow> bool" where
  "startswith s pre = (take (length pre) s = pre)"

definition endswith :: "string \<Rightarrow> string \<Rightarrow> bool" where
  "endswith s suf = (length suf \<le> length s \<and> drop (length s - length suf) s = suf)"

text \<open>
  The list comprehension \<^verbatim>\<open>[open_file(path) for path in paths]\<close>: the files are read in
  order, and the first exception ends it.
\<close>

fun open_files :: "path list \<Rightarrow> py_error + string list" where
  "open_files [] = Inr []"
| "open_files (p # ps) =
     (case open_file p of
        Inl e \<Rightarrow> Inl e
      | Inr text \<Rightarrow> (case open_files ps of Inl e \<Rightarrow> Inl e | Inr texts \<Rightarrow> Inr (text # texts)))"

text \<open>\<^verbatim>\<open>xs[0]\<close>: the first element, \<^verbatim>\<open>IndexError\<close> on the empty list.\<close>

definition item0 :: "'a list \<Rightarrow> py_error + 'a" where
  "item0 xs = (case xs of [] \<Rightarrow> Inl IndexError | x # _ \<Rightarrow> Inr x)"

text \<open>
  \<^verbatim>\<open>[open_file(path) for path in prompt_paths if path.name.startswith(pre)][0]\<close>
\<close>

definition first_prompt :: "string \<Rightarrow> path list \<Rightarrow> py_error + string" where
  "first_prompt pre prompt_paths =
     (case open_files (filter (\<lambda>path. startswith (name path) pre) prompt_paths) of
        Inl e \<Rightarrow> Inl e
      | Inr texts \<Rightarrow> item0 texts)"

text \<open>
  \<^verbatim>\<open>
  def get_prompts(prompt_dir: str = "./prompts"):
      prompt_paths = [
          prompt for prompt in Path(prompt_dir).iterdir() if prompt.name.endswith(".txt")]
      summ_prompt = [
          open_file(path) for path in prompt_paths if path.name.startswith("summ")][0]
      entity_ext_prompt = [
          open_file(path) for path in prompt_paths if path.name.startswith("entity")][0]
      comm_report_prompt = [
          open_file(path) for path in prompt_paths if path.name.startswith("community")][0]
      return summ_prompt, entity_ext_prompt, comm_report_prompt
  \<close>
\<close>

definition get_prompts :: "filesys \<Rightarrow> string \<Rightarrow> py_error + string \<times> string \<times> string" where
  "get_prompts fs prompt_dir =
     (case fs prompt_dir of
        Inl e \<Rightarrow> Inl e
      | Inr entries \<Rightarrow>
          (let prompt_paths = filter (\<lambda>prompt. endswith (name prompt) ''.txt'') entries
           in case first_prompt ''summ'' prompt_paths of
                Inl e \<Rightarrow> Inl e
              | Inr summ_prompt \<Rightarrow>
             (case first_prompt ''entity'' prompt_paths of
                Inl e \<Rightarrow> Inl e
              | Inr entity_ext_prompt \<Rightarrow>
             (case first_prompt ''community'' prompt_paths of
                Inl e \<Rightarrow> Inl e
              | Inr comm_report_prompt \<Rightarrow>
                  Inr (summ_prompt, entity_ext_prompt, comm_report_prompt)))))"

section \<open>The session state\<close>

text \<open>
  \<^verbatim>\<open>st.session_state\<close>: keys to values. The enumeration \<^verbatim>\<open>PromptKeys\<close> is imported from
  \<^verbatim>\<open>prompt_enum\<close>, which is not among the sources, so it is a parameter: the values of
  its members in the order of their definition (what \<^verbatim>\<open>for key in PromptKeys\<close> runs
  through), and the values of the three members the code names.
\<close>

type_synonym session_state = "string \<rightharpoonup> pyval"

record PromptKeys =
  members :: "string list"
  SUMMARY :: string
  ENTITY :: string
  COMMUNITY :: string

text \<open>
  \<^verbatim>\<open>
  def set_session_state_variables() -> None:
      for key in PromptKeys:
          value = key.value
          if value not in st.session_state:
              st.session_state[value] = ""
      if "build_index_name" not in st.session_state:
          st.session_state["build_index_name"] = ""
  \<close>
\<close>

definition set_session_state_variables :: "PromptKeys \<Rightarrow> session_state \<Rightarrow> session_state" where
  "set_session_state_variables keys st =
     (let st1 = fold (\<lambda>value st. if st value = None then st(value \<mapsto> PStr '''') else st)
                  (members keys) st
      in if st1 ''build_index_name'' = None then st1(''build_index_name'' \<mapsto> PStr '''')
         else st1)"

text \<open>
  \<^verbatim>\<open>
  def update_session_state_prompt_vars(summarize = None, entity_extract = None,
                                       community = None, initial_setting = False,
                                       prompt_dir = "./prompts") -> None:
      if initial_setting:
          summarize, entity_extract, community = get_prompts(prompt_dir)
      st.session_state[PromptKeys.SUMMARY.value] = summarize
      st.session_state[PromptKeys.ENTITY.value] = entity_extract
      st.session_state[PromptKeys.COMMUNITY.value] = community
  \<close>
  The explicit arguments are \<^verbatim>\<open>Optional[str]\<close>, so they are values (\<^verbatim>\<open>None\<close> among them).
\<close>

definition update_session_state_prompt_vars ::
  "PromptKeys \<Rightarrow> filesys \<Rightarrow> pyval \<Rightarrow> pyval \<Rightarrow> pyval \<Rightarrow> bool \<Rightarrow> string \<Rightarrow> session_state \<Rightarrow>
   py_error + session_state" where
  "update_session_state_prompt_vars keys fs summarize entity_extract community
     initial_setting prompt_dir st =
     (case (if initial_setting then
              (case get_prompts fs prompt_dir of
                 Inl e \<Rightarrow> Inl e
               | Inr (s, e, c) \<Rightarrow> Inr (PStr s, PStr e, PStr c))
            else Inr (summarize, entity_extract, community)) of
        Inl e \<Rightarrow> Inl e
      | Inr (summarize', entity_extract', community') \<Rightarrow>
          Inr (st(SUMMARY keys \<mapsto> summarize', ENTITY keys \<mapsto> entity_extract',
                  COMMUNITY keys \<mapsto> community')))"

section \<open>The files of the prompt directory\<close>










section \<open>Notions the properties are stated with\<close>

text \<open>
  The lookup \<^verbatim>\<open>obj[k]\<close> raises, or its value cannot be appended to the list \<^verbatim>\<open>[""]\<close>.
\<close>

definition lookup_or_concat_fails :: "pyval \<Rightarrow> string \<Rightarrow> bool" where
  "lookup_or_concat_fails obj k =
     (case subscript obj k of
        Inl e \<Rightarrow> True
      | Inr v \<Rightarrow> (case list_concat [PStr ''''] v of Inl e \<Rightarrow> True | Inr ys \<Rightarrow> False))"

text \<open>
  A failed call: a transport exception, or a response whose status is not 200.
\<close>

definition is_failure :: "py_error + response \<Rightarrow> bool" where
  "is_failure out = (case out of Inl e \<Rightarrow> True | Inr r \<Rightarrow> status_code r \<noteq> 200)"

text \<open>
  The request of \<^verbatim>\<open>requests.get(url, headers=headers)\<close>, and the request
  \<^verbatim>\<open>build_index\<close> posts, with the files it attaches.
\<close>

definition get_request :: "string \<Rightarrow> (string \<times> string) list \<Rightarrow> request" where
  "get_request url headers =
     \<lparr>req_method = GET, req_url = url, req_headers = headers, req_params = [],
      req_json = None, req_files = None, req_stream = False\<rparr>"

definition index_request ::
  "string \<Rightarrow> (string \<times> string) list \<Rightarrow> string \<Rightarrow> string \<Rightarrow> (string \<times> string) list option \<Rightarrow>
   request" where
  "index_request api_url headers storage_name index_name files =
     \<lparr>req_method = POST, req_url = api_url @ ''/index'', req_headers = headers,
      req_params = [(''index_name'', PStr index_name), (''storage_name'', PStr storage_name)],
      req_json = None, req_files = files, req_stream = False\<rparr>"

text \<open>
  The \<^verbatim>\<open>.txt\<close> entries of a directory listing whose name starts with a prefix, in the
  order of the listing; whether an entry can be read, and its text.
\<close>

definition matching :: "string \<Rightarrow> path list \<Rightarrow> path list" where
  "matching pre entries =
     filter (\<lambda>p. endswith (name p) ''.txt'' \<and> startswith (name p) pre) entries"

definition text_of :: "path \<Rightarrow> string" where
  "text_of p = (case open_file p of Inl e \<Rightarrow> [] | Inr text \<Rightarrow> text)"

definition readable :: "path \<Rightarrow> bool" where
  "readable p = (case open_file p of Inl e \<Rightarrow> False | Inr text \<Rightarrow> True)"

section \<open>Concrete inputs\<close>

text \<open>
  Networks that answer every request the same way, a service that fails on one endpoint
  only, and a machine without files.
\<close>

definition no_files :: "string \<Rightarrow> py_error + string" where
  "no_files p = Inl (OSError ''FileNotFoundError'')"

definition server_error :: response where
  "server_error = \<lparr>status_code = 500, json_body = Some (PDict [(''detail'', PStr ''boom'')]),
                    chunks = [], stream_error = None\<rparr>"

definition net_500 :: network where
  "net_500 req = Inr server_error"

definition net_down :: network where
  "net_down req = Inl (RequestException ''connection refused'')"

definition no_content :: response where
  "no_content = \<lparr>status_code = 204, json_body = None, chunks = [], stream_error = None\<rparr>"

definition net_204 :: network where
  "net_204 req = Inr no_content"

definition multiple_choices :: response where
  "multiple_choices = \<lparr>status_code = 300, json_body = None, chunks = [''<'', ''a'', ''>''],
                        stream_error = None\<rparr>"

definition net_300 :: network where
  "net_300 req = Inr multiple_choices"

definition broken_stream :: response where
  "broken_stream = \<lparr>status_code = 200, json_body = None, chunks = [''P'', ''K''],
                     stream_error = Some (RequestException ''ChunkedEncodingError'')\<rparr>"

definition net_broken :: network where
  "net_broken req = Inr broken_stream"

definition flaky_service :: network where
  "flaky_service req = (if req_url req = ''http://api/data'' then Inr server_error
                        else Inr \<lparr>status_code = 200, json_body = Some (PDict []), chunks = [],
                                  stream_error = None\<rparr>)"

text \<open>A cache that holds the index list for one pair of arguments.\<close>

definition warm_cache :: index_cache where
  "warm_cache = [(''http://api'', []) \<mapsto> (PDict [(''index_name'', PList [PStr ''foo''])], [])]"

text \<open>
  A \<^verbatim>\<open>zipfile\<close> module that rejects every file, one that opens every file, an
  extraction that writes nothing and one that fails on a member.
\<close>

definition reject_zip :: "disk \<Rightarrow> string \<Rightarrow> py_error + unit" where
  "reject_zip d zip_file_name = Inl BadZipFile"

definition accept_zip :: "disk \<Rightarrow> string \<Rightarrow> py_error + unit" where
  "accept_zip d zip_file_name = Inr ()"

definition no_members :: "unit \<Rightarrow> disk \<Rightarrow> (py_error + unit) \<times> disk" where
  "no_members zip_ref d = (Inr (), d)"

definition bad_crc :: "unit \<Rightarrow> disk \<Rightarrow> (py_error + unit) \<times> disk" where
  "bad_crc zip_ref d = (Inl BadZipFile, d)"

text \<open>A stand-in for the lower-casing of non-ASCII text, which no example needs.\<close>

definition keep_text :: "string \<Rightarrow> string" where
  "keep_text s = s"

text \<open>An enumeration of prompt keys, a session state and prompt directories.\<close>

definition example_keys :: PromptKeys where
  "example_keys = \<lparr>members = [''entity'', ''summary'', ''community''],
                   SUMMARY = ''summary'', ENTITY = ''entity'', COMMUNITY = ''community''\<rparr>"

definition example_state :: session_state where
  "example_state = [''summary'' \<mapsto> PStr ''Summarize the text.'']"

definition example_fs :: filesys where
  "example_fs dir =
     (if dir = ''./prompts'' then
        Inr [\<lparr>name = ''community_report.txt'', open_file = Inr ''C''\<rparr>,
             \<lparr>name = ''entity_extraction.txt'', open_file = Inr ''E''\<rparr>,
             \<lparr>name = ''notes.md'', open_file = Inr ''N''\<rparr>,
             \<lparr>name = ''summarize_descriptions.txt'', open_file = Inr ''S''\<rparr>]
      else Inl (OSError ''FileNotFoundError''))"

definition two_summ_entries :: "path list" where
  "two_summ_entries =
     [\<lparr>name = ''summarize_descriptions.txt'', open_file = Inr ''S1''\<rparr>,
      \<lparr>name = ''entity_extraction.txt'', open_file = Inr ''E''\<rparr>,
      \<lparr>name = ''summary_old.txt'', open_file = Inr ''S2''\<rparr>,
      \<lparr>name = ''community_report.txt'', open_file = Inr ''C''\<rparr>]"

definition two_summ_fs :: filesys where
  "two_summ_fs dir =
     (if dir = ''./prompts'' then Inr two_summ_entries else Inl (OSError ''FileNotFoundError''))"

definition no_entity_entries :: "path list" where
  "no_entity_entries =
     [\<lparr>name = ''summarize_descriptions.txt'', open_file = Inr ''S''\<rparr>,
      \<lparr>name = ''community_report.txt'', open_file = Inr ''C''\<rparr>]"

definition no_entity_fs :: filesys where
  "no_entity_fs dir =
     (if dir = ''./prompts'' then Inr no_entity_entries else Inl (OSError ''FileNotFoundError''))"



















section \<open>The option lists\<close>

lemma list_concat_cases:
  "list_concat xs v = (case v of PList ys \<Rightarrow> Inr (xs @ ys) | _ \<Rightarrow> Inl TypeError)"
  by (cases v) simp_all

lemma subscript_cases:
  "subscript obj k =
     (case obj of
        PDict d \<Rightarrow> (case map_of d k of None \<Rightarrow> Inl (KeyError k) | Some v \<Rightarrow> Inr v)
      | _ \<Rightarrow> Inl TypeError)"
  by (cases obj) simp_all

text \<open>
  The lookup and the concatenation both succeed for one shape of input only: a dict that
  holds a list under the key.
\<close>

lemma lookup_or_concat_fails_iff:
  "lookup_or_concat_fails obj k \<longleftrightarrow> \<not> (\<exists>d ys. obj = PDict d \<and> map_of d k = Some (PList ys))"
  by (auto simp: lookup_or_concat_fails_def subscript_cases list_concat_cases
           split: pyval.splits option.splits)

text \<open>
  C9. For the index-list response \<^verbatim>\<open>{"index_name": ["foo","bar"]}\<close>,
  \<^verbatim>\<open>show_index_options\<close> returns exactly \<^verbatim>\<open>["", "foo", "bar"]\<close>: the empty-string
  placeholder, then the returned names in order. Nothing is printed.
\<close>

theorem show_index_options_foo_bar:
  "show_index_options (PDict [(''index_name'', PList [PStr ''foo'', PStr ''bar''])]) =
     (Inr [PStr '''', PStr ''foo'', PStr ''bar''], [])"
  by (simp add: show_index_options_def)

text \<open>
  C8. When the container listing holds no containers, that is its \<^verbatim>\<open>storage_name\<close> entry
  is the empty list or is missing, \<^verbatim>\<open>_parse_container_names\<close> returns the list with
  exactly one element, the empty string.
\<close>

theorem parse_container_names_no_containers:
  assumes "containers self = PDict d"
    and "map_of d ''storage_name'' = None \<or> map_of d ''storage_name'' = Some (PList [])"
  shows "fst (parse_container_names self) = Inr [PStr '''']"
  using assms by (auto simp: parse_container_names_def)

theorem parse_container_names_no_containers_witness:
  "fst (parse_container_names \<lparr>containers = PDict [(''storage_name'', PList [])],
         pipeline_api_url = ''http://api'', pipeline_headers = [], pipeline_upload_headers = []\<rparr>)
     = Inr [PStr '''']
   \<and> fst (parse_container_names \<lparr>containers = PDict [(''other'', PInt 1)],
         pipeline_api_url = ''http://api'', pipeline_headers = [], pipeline_upload_headers = []\<rparr>)
     = Inr [PStr '''']"
  using parse_container_names_no_containers
          [of "\<lparr>containers = PDict [(''storage_name'', PList [])],
                pipeline_api_url = ''http://api'', pipeline_headers = [],
                pipeline_upload_headers = []\<rparr>" "[(''storage_name'', PList [])]"]
        parse_container_names_no_containers
          [of "\<lparr>containers = PDict [(''other'', PInt 1)],
                pipeline_api_url = ''http://api'', pipeline_headers = [],
                pipeline_upload_headers = []\<rparr>" "[(''other'', PInt 1)]"]
  by simp

text \<open>
  C10. For every input (a decoded JSON value or \<^verbatim>\<open>None\<close>: a dict without the key, a
  non-dict, a dict whose value under the key is no list, ...) \<^verbatim>\<open>show_index_options\<close> and
  \<^verbatim>\<open>_parse_container_names\<close> return and do not raise; the list returned starts with the
  empty string; and it is exactly \<^verbatim>\<open>[""]\<close> whenever the lookup or the concatenation
  fails.
\<close>

theorem option_builders_total:
  "(\<exists>ys. fst (show_index_options obj) = Inr (PStr '''' # ys)) \<and>
   (lookup_or_concat_fails obj ''index_name'' \<longrightarrow>
      fst (show_index_options obj) = Inr [PStr '''']) \<and>
   (\<exists>ys. fst (parse_container_names self) = Inr (PStr '''' # ys)) \<and>
   (lookup_or_concat_fails (containers self) ''storage_name'' \<longrightarrow>
      fst (parse_container_names self) = Inr [PStr ''''])"
  by (auto simp: show_index_options_def parse_container_names_def lookup_or_concat_fails_def
                 list_concat_cases
           split: sum.splits pyval.splits)

theorem option_builders_total_witness:
  "lookup_or_concat_fails PNone ''index_name'' \<and>
   fst (show_index_options PNone) = Inr [PStr ''''] \<and>
   lookup_or_concat_fails (PDict [(''storage_name'', PStr ''data'')]) ''storage_name'' \<and>
   fst (parse_container_names \<lparr>containers = PDict [(''storage_name'', PStr ''data'')],
         pipeline_api_url = ''http://api'', pipeline_headers = [],
         pipeline_upload_headers = []\<rparr>) = Inr [PStr '''']"
  using option_builders_total
          [of PNone "\<lparr>containers = PDict [(''storage_name'', PStr ''data'')],
                       pipeline_api_url = ''http://api'', pipeline_headers = [],
                       pipeline_upload_headers = []\<rparr>"]
  by (simp add: lookup_or_concat_fails_def)

section \<open>The query request\<close>

text \<open>
  C5. For the index list \<^verbatim>\<open>["foo"]\<close>, the query type \<^verbatim>\<open>"global"\<close> and the query text
  \<^verbatim>\<open>"hello"\<close>, \<^verbatim>\<open>query_index\<close> issues a POST to \<^verbatim>\<open>{base}/query/global\<close> with the JSON
  body \<^verbatim>\<open>{"index_name":["foo"],"query":"hello","reformat_context_data":true}\<close>: that is
  the request it builds, the type is lower-cased first (\<^verbatim>\<open>"GLOBAL"\<close> gives the same
  request), and what it returns and shows is computed from the answer to that request.
\<close>

theorem query_index_posts_global:
  "query_request unicode_lower [''foo''] ''global'' ''hello'' base headers =
     \<lparr>req_method = POST, req_url = base @ ''/query/global'', req_headers = headers,
      req_params = [],
      req_json = Some (PDict [(''index_name'', PList [PStr ''foo'']),
                              (''query'', PStr ''hello''),
                              (''reformat_context_data'', PBool True)]),
      req_files = None, req_stream = False\<rparr> \<and>
   query_request unicode_lower [''foo''] ''GLOBAL'' ''hello'' base headers =
     query_request unicode_lower [''foo''] ''global'' ''hello'' base headers \<and>
   query_index unicode_lower net [''foo''] ''global'' ''hello'' base headers =
     (case net \<lparr>req_method = POST, req_url = base @ ''/query/global'',
                req_headers = headers, req_params = [],
                req_json = Some (PDict [(''index_name'', PList [PStr ''foo'']),
                                        (''query'', PStr ''hello''),
                                        (''reformat_context_data'', PBool True)]),
                req_files = None, req_stream = False\<rparr> of
        Inl e \<Rightarrow> (Inr PNone, [ErrorException e])
      | Inr response \<Rightarrow>
          (case json_of response of
             Inl e \<Rightarrow> (Inr PNone, [ErrorException e])
           | Inr v \<Rightarrow>
               if status_code response = 200 then (Inr v, [])
               else (Inr PNone, [ErrorStatusJson (status_code response) v])))"
  by (simp add: query_index_def query_request_def lower_def is_ascii_def lower_char_def
           split: sum.splits)

section \<open>The session state holder\<close>

lemma fold_init_key:
  "fold (\<lambda>value st. if st value = None then st(value \<mapsto> PStr '''') else st) ks st k =
     (if st k = None \<and> k \<in> set ks then Some (PStr '''') else st k)"
  by (induction ks arbitrary: st) auto

lemma set_session_state_variables_apply:
  "set_session_state_variables keys st k =
     (if st k = None \<and> (k \<in> set (members keys) \<or> k = ''build_index_name'')
      then Some (PStr '''') else st k)"
  unfolding set_session_state_variables_def Let_def
  by (simp only: fold_init_key fun_upd_apply split: if_splits) auto

text \<open>
  C3. Initialising the session state is idempotent: running it twice gives what running it
  once gives; a key that already holds a value (any value, empty or not) keeps it; every
  missing fixed key (the values of \<^verbatim>\<open>PromptKeys\<close> and \<^verbatim>\<open>"build_index_name"\<close>) is created
  with the empty string; and no other key is touched.
\<close>

theorem set_session_state_variables_idempotent:
  "set_session_state_variables keys (set_session_state_variables keys st) =
     set_session_state_variables keys st \<and>
   (\<forall>k v. st k = Some v \<longrightarrow> set_session_state_variables keys st k = Some v) \<and>
   (\<forall>k \<in> set (members keys) \<union> {''build_index_name''}.
      st k = None \<longrightarrow> set_session_state_variables keys st k = Some (PStr '''')) \<and>
   (\<forall>k. k \<notin> set (members keys) \<union> {''build_index_name''} \<longrightarrow>
      set_session_state_variables keys st k = st k)"
proof -
  have "set_session_state_variables keys (set_session_state_variables keys st) k =
        set_session_state_variables keys st k" for k
    by (simp add: set_session_state_variables_apply)
  then have "set_session_state_variables keys (set_session_state_variables keys st) =
        set_session_state_variables keys st"
    by (rule ext)
  then show ?thesis
    by (simp add: set_session_state_variables_apply)
qed

theorem set_session_state_variables_idempotent_witness:
  "example_state ''summary'' = Some (PStr ''Summarize the text.'') \<and>
   set_session_state_variables example_keys example_state ''summary'' =
     Some (PStr ''Summarize the text.'') \<and>
   ''entity'' \<in> set (members example_keys) \<union> {''build_index_name''} \<and>
   example_state ''entity'' = None \<and>
   set_session_state_variables example_keys example_state ''entity'' = Some (PStr '''') \<and>
   ''other'' \<notin> set (members example_keys) \<union> {''build_index_name''} \<and>
   set_session_state_variables example_keys example_state ''other'' = example_state ''other'' \<and>
   set_session_state_variables example_keys
     (set_session_state_variables example_keys example_state) =
     set_session_state_variables example_keys example_state"
  using set_session_state_variables_idempotent [of example_keys example_state]
  by (simp add: example_keys_def example_state_def)

text \<open>
  C6. \<^verbatim>\<open>update_session_state_prompt_vars\<close> has two modes. With the initial flag set the
  three explicit arguments are ignored: the result is the same whatever they are, and the
  three prompt keys are given the three texts \<^verbatim>\<open>get_prompts\<close> loads from the prompt
  directory (an exception of the load leaves the function). Without the flag the three
  explicit arguments are stored as given.
\<close>

theorem update_session_state_prompt_vars_dual_mode:
  "update_session_state_prompt_vars keys fs summarize entity_extract community True prompt_dir st =
     update_session_state_prompt_vars keys fs summarize' entity_extract' community' True
       prompt_dir st \<and>
   (\<forall>s e c. get_prompts fs prompt_dir = Inr (s, e, c) \<longrightarrow>
      update_session_state_prompt_vars keys fs summarize entity_extract community True
        prompt_dir st =
      Inr (st(SUMMARY keys \<mapsto> PStr s, ENTITY keys \<mapsto> PStr e, COMMUNITY keys \<mapsto> PStr c))) \<and>
   (\<forall>err. get_prompts fs prompt_dir = Inl err \<longrightarrow>
      update_session_state_prompt_vars keys fs summarize entity_extract community True
        prompt_dir st = Inl err) \<and>
   update_session_state_prompt_vars keys fs summarize entity_extract community False
     prompt_dir st =
     Inr (st(SUMMARY keys \<mapsto> summarize, ENTITY keys \<mapsto> entity_extract,
             COMMUNITY keys \<mapsto> community))"
  by (simp add: update_session_state_prompt_vars_def)

lemma get_prompts_example_fs: "get_prompts example_fs ''./prompts'' = Inr (''S'', ''E'', ''C'')"
  by (simp add: get_prompts_def example_fs_def first_prompt_def item0_def startswith_def
        endswith_def)

theorem update_session_state_prompt_vars_dual_mode_witness:
  "get_prompts example_fs ''./prompts'' = Inr (''S'', ''E'', ''C'') \<and>
   update_session_state_prompt_vars example_keys example_fs (PStr ''x'') PNone (PStr ''z'') True
     ''./prompts'' example_state =
     Inr (example_state(''summary'' \<mapsto> PStr ''S'', ''entity'' \<mapsto> PStr ''E'',
            ''community'' \<mapsto> PStr ''C'')) \<and>
   get_prompts example_fs ''./nowhere'' = Inl (OSError ''FileNotFoundError'') \<and>
   update_session_state_prompt_vars example_keys example_fs (PStr ''x'') PNone (PStr ''z'') True
     ''./nowhere'' example_state = Inl (OSError ''FileNotFoundError'')"
proof -
  have a: "get_prompts example_fs ''./nowhere'' = Inl (OSError ''FileNotFoundError'')"
    by (simp add: get_prompts_def example_fs_def)
  have k: "SUMMARY example_keys = ''summary''" "ENTITY example_keys = ''entity''"
    "COMMUNITY example_keys = ''community''"
    by (simp_all add: example_keys_def)
  show ?thesis
    using update_session_state_prompt_vars_dual_mode
            [of example_keys example_fs "PStr ''x''" PNone "PStr ''z''" "''./prompts''"
                example_state "PStr ''x''" PNone "PStr ''z''"]
          update_session_state_prompt_vars_dual_mode
            [of example_keys example_fs "PStr ''x''" PNone "PStr ''z''" "''./nowhere''"
                example_state "PStr ''x''" PNone "PStr ''z''"]
    by (simp add: get_prompts_example_fs a k)
qed

section \<open>Loading the prompts\<close>

lemma open_files_readable:
  "list_all readable ps \<Longrightarrow> open_files ps = Inr (map text_of ps)"
  by (induction ps) (auto simp: readable_def text_of_def split: sum.splits)

lemma first_prompt_matching:
  "first_prompt pre (filter (\<lambda>prompt. endswith (name prompt) ''.txt'') entries) =
     (case open_files (matching pre entries) of Inl e \<Rightarrow> Inl e | Inr texts \<Rightarrow> item0 texts)"
  by (simp add: first_prompt_def matching_def conj_commute)

lemma first_prompt_readable:
  assumes "list_all readable (matching pre entries)"
  shows "first_prompt pre (filter (\<lambda>prompt. endswith (name prompt) ''.txt'') entries) =
           (if matching pre entries = [] then Inl IndexError
            else Inr (text_of (hd (matching pre entries))))"
  using open_files_readable [OF assms]
  by (cases "matching pre entries") (simp_all add: first_prompt_matching item0_def)

text \<open>
  C2, as the code has it. For a prompt directory that can be listed and whose matching
  \<^verbatim>\<open>.txt\<close> files can be read, \<^verbatim>\<open>get_prompts\<close> fails with the unguarded \<^verbatim>\<open>IndexError\<close>
  exactly when no \<^verbatim>\<open>.txt\<close> file matches one of the prefixes summ, entity, community. When
  one or more files match each prefix it succeeds and returns, for each prefix, the text
  of the first matching file in the order of the listing: more than one match is no error.
\<close>

theorem get_prompts_first_match:
  assumes "fs prompt_dir = Inr entries"
    and "list_all readable (matching ''summ'' entries)"
    and "list_all readable (matching ''entity'' entries)"
    and "list_all readable (matching ''community'' entries)"
  shows "(get_prompts fs prompt_dir = Inl IndexError \<longleftrightarrow>
            matching ''summ'' entries = [] \<or> matching ''entity'' entries = [] \<or>
            matching ''community'' entries = []) \<and>
         (matching ''summ'' entries \<noteq> [] \<and> matching ''entity'' entries \<noteq> [] \<and>
          matching ''community'' entries \<noteq> [] \<longrightarrow>
            get_prompts fs prompt_dir =
              Inr (text_of (hd (matching ''summ'' entries)),
                   text_of (hd (matching ''entity'' entries)),
                   text_of (hd (matching ''community'' entries))))"
  using assms
  by (simp add: get_prompts_def first_prompt_readable)

lemma matching_two_summ:
  "matching ''summ'' two_summ_entries =
     [\<lparr>name = ''summarize_descriptions.txt'', open_file = Inr ''S1''\<rparr>,
      \<lparr>name = ''summary_old.txt'', open_file = Inr ''S2''\<rparr>]"
  "matching ''entity'' two_summ_entries =
     [\<lparr>name = ''entity_extraction.txt'', open_file = Inr ''E''\<rparr>]"
  "matching ''community'' two_summ_entries =
     [\<lparr>name = ''community_report.txt'', open_file = Inr ''C''\<rparr>]"
  by (simp_all add: matching_def two_summ_entries_def startswith_def endswith_def)

lemma matching_no_entity:
  "matching ''summ'' no_entity_entries =
     [\<lparr>name = ''summarize_descriptions.txt'', open_file = Inr ''S''\<rparr>]"
  "matching ''entity'' no_entity_entries = []"
  "matching ''community'' no_entity_entries =
     [\<lparr>name = ''community_report.txt'', open_file = Inr ''C''\<rparr>]"
  by (simp_all add: matching_def no_entity_entries_def startswith_def endswith_def)

theorem get_prompts_first_match_witness:
  "two_summ_fs ''./prompts'' = Inr two_summ_entries \<and>
   list_all readable (matching ''summ'' two_summ_entries) \<and>
   list_all readable (matching ''entity'' two_summ_entries) \<and>
   list_all readable (matching ''community'' two_summ_entries) \<and>
   length (matching ''summ'' two_summ_entries) = 2 \<and>
   get_prompts two_summ_fs ''./prompts'' = Inr (''S1'', ''E'', ''C'') \<and>
   no_entity_fs ''./prompts'' = Inr no_entity_entries \<and>
   list_all readable (matching ''summ'' no_entity_entries) \<and>
   list_all readable (matching ''entity'' no_entity_entries) \<and>
   list_all readable (matching ''community'' no_entity_entries) \<and>
   matching ''entity'' no_entity_entries = [] \<and>
   get_prompts no_entity_fs ''./prompts'' = Inl IndexError"
proof -
  have a: "two_summ_fs ''./prompts'' = Inr two_summ_entries"
    by (simp add: two_summ_fs_def)
  have b: "no_entity_fs ''./prompts'' = Inr no_entity_entries"
    by (simp add: no_entity_fs_def)
  have r: "list_all readable (matching ''summ'' two_summ_entries)"
    "list_all readable (matching ''entity'' two_summ_entries)"
    "list_all readable (matching ''community'' two_summ_entries)"
    "list_all readable (matching ''summ'' no_entity_entries)"
    "list_all readable (matching ''entity'' no_entity_entries)"
    "list_all readable (matching ''community'' no_entity_entries)"
    by (simp_all add: matching_two_summ matching_no_entity readable_def)
  show ?thesis
    using get_prompts_first_match
            [where fs = two_summ_fs and prompt_dir = "''./prompts''", OF a r(1) r(2) r(3)]
          get_prompts_first_match
            [where fs = no_entity_fs and prompt_dir = "''./prompts''", OF b r(4) r(5) r(6)]
          a b r
    by (simp add: matching_two_summ matching_no_entity text_of_def)
qed

text \<open>
  C2 as it is stated fails: a directory in which two \<^verbatim>\<open>.txt\<close> files match the prefix
  summ is loaded without an error, and the first of the two is returned.
\<close>

theorem get_prompts_two_matches_succeeds:
  "two_summ_fs ''./prompts'' = Inr two_summ_entries \<and>
   length (matching ''summ'' two_summ_entries) = 2 \<and>
   get_prompts two_summ_fs ''./prompts'' = Inr (''S1'', ''E'', ''C'')"
  by (simp add: two_summ_fs_def two_summ_entries_def matching_def get_prompts_def
        first_prompt_def item0_def startswith_def endswith_def)



















section \<open>Failures of the HTTP calls\<close>

lemma get_storage_container_names_failure:
  assumes "is_failure (net (get_request (api_url @ ''/data'') headers))"
  shows "fst (get_storage_container_names net api_url headers) = Inr PNone"
  using assms
  by (cases "net (get_request (api_url @ ''/data'') headers)")
     (simp_all add: get_storage_container_names_def get_request_def is_failure_def
        split: sum.splits)

lemma get_entity_data_failure:
  assumes "is_failure (net (get_request (api_url @ ''/index/config/entity'') headers))"
  shows "fst (get_entity_data net api_url headers) = Inr PNone"
  using assms
  by (cases "net (get_request (api_url @ ''/index/config/entity'') headers)")
     (simp_all add: get_entity_data_def get_request_def is_failure_def split: sum.splits)

lemma get_indexes_data_body_failure:
  assumes "is_failure (net (get_request (api_url @ ''/index'') headers))"
  shows "fst (get_indexes_data_body net api_url headers) = Inr PNone"
  using assms
  by (cases "net (get_request (api_url @ ''/index'') headers)")
     (simp_all add: get_indexes_data_body_def get_request_def is_failure_def split: sum.splits)

lemma get_indexes_data_failure:
  assumes "cache (api_url, headers) = None"
    and "is_failure (net (get_request (api_url @ ''/index'') headers))"
  shows "fst (fst (get_indexes_data cache net api_url headers)) = Inr PNone"
  using get_indexes_data_body_failure [of net api_url headers, OF assms(2)] assms(1)
  by (cases "get_indexes_data_body net api_url headers")
     (simp add: get_indexes_data_def split: sum.splits)

lemma query_index_failure:
  assumes "is_failure (net (query_request unicode_lower index_names query_type query api_url
                              headers))"
  shows "fst (query_index unicode_lower net index_names query_type query api_url headers) =
           Inr PNone"
  using assms
  by (cases "net (query_request unicode_lower index_names query_type query api_url headers)")
     (simp_all add: query_index_def is_failure_def split: sum.splits)

lemma get_source_entity_failure:
  assumes "is_failure (net (get_request
             (api_url @ ''/source/entity/'' @ index_name @ ''/'' @ entity_id) headers))"
  shows "fst (get_source_entity net index_name entity_id api_url headers) = Inr PNone"
  using assms
  by (cases "net (get_request
             (api_url @ ''/source/entity/'' @ index_name @ ''/'' @ entity_id) headers)")
     (simp_all add: get_source_entity_def get_request_def is_failure_def split: sum.splits)

lemma build_index_raises_or_posts:
  "(\<exists>e. build_index open_r net api_url headers storage_name index_name ep cp sp = Inl e) \<or>
   (\<exists>files. build_index open_r net api_url headers storage_name index_name ep cp sp =
              net (index_request api_url headers storage_name index_name files))"
  unfolding build_index_def index_request_def
  by (auto split: sum.splits)

text \<open>
  C1, as the code has it. Each of the five wrappers that handle their response (listing
  storage containers, fetching the entity-extraction configuration, listing indexes,
  submitting a query, fetching a source entity) returns \<^verbatim>\<open>None\<close> and raises nothing
  whenever the call it makes is answered by a transport exception or by a status other
  than 200, whatever other calls would be answered. Listing indexes makes its call only
  when its arguments are not in the cache of \<^verbatim>\<open>st.cache_data\<close>; otherwise it returns the
  cached value. \<^verbatim>\<open>build_index\<close> is no such wrapper: it hands on what \<^verbatim>\<open>requests.post\<close>
  gives, the response object whatever its status or the exception, unless opening a
  prompt file raised before. The prompt download raises on a transport exception and on
  a client or server error status.
\<close>

theorem wrappers_swallow_failures:
  "(is_failure (net (get_request (api_url @ ''/data'') headers)) \<longrightarrow>
      fst (get_storage_container_names net api_url headers) = Inr PNone) \<and>
   (is_failure (net (get_request (api_url @ ''/index/config/entity'') headers)) \<longrightarrow>
      fst (get_entity_data net api_url headers) = Inr PNone) \<and>
   (cache (api_url, headers) = None \<and>
    is_failure (net (get_request (api_url @ ''/index'') headers)) \<longrightarrow>
      fst (fst (get_indexes_data cache net api_url headers)) = Inr PNone) \<and>
   (\<forall>v shown. cache (api_url, headers) = Some (v, shown) \<longrightarrow>
      get_indexes_data cache net api_url headers = ((Inr v, shown), cache)) \<and>
   (is_failure (net (query_request unicode_lower index_names query_type query api_url headers))
      \<longrightarrow>
      fst (query_index unicode_lower net index_names query_type query api_url headers) =
        Inr PNone) \<and>
   (is_failure (net (get_request
        (api_url @ ''/source/entity/'' @ index_name @ ''/'' @ entity_id) headers)) \<longrightarrow>
      fst (get_source_entity net index_name entity_id api_url headers) = Inr PNone) \<and>
   build_index open_r net api_url headers storage_name index_name NoFile NoFile NoFile =
     net (index_request api_url headers storage_name index_name None) \<and>
   ((\<exists>e. build_index open_r net api_url headers storage_name index_name
           entity_prompt community_prompt summarize_prompt = Inl e) \<or>
    (\<exists>files. build_index open_r net api_url headers storage_name index_name
           entity_prompt community_prompt summarize_prompt =
           net (index_request api_url headers storage_name index_name files))) \<and>
   (\<forall>e. net (prompts_request api_url headers storage_name limit) = Inl e \<longrightarrow>
      fst (generate_prompts net api_url headers storage_name zip_file_name limit d) = Inl e) \<and>
   (\<forall>r. net (prompts_request api_url headers storage_name limit) = Inr r \<and>
        400 \<le> status_code r \<and> status_code r < 600 \<longrightarrow>
      fst (generate_prompts net api_url headers storage_name zip_file_name limit d) =
        Inl (HTTPError (status_code r)))"
proof -
  have b: "build_index open_r net api_url headers storage_name index_name NoFile NoFile NoFile =
     net (index_request api_url headers storage_name index_name None)"
    by (simp add: build_index_def index_request_def)
  have c: "\<forall>v shown. cache (api_url, headers) = Some (v, shown) \<longrightarrow>
      get_indexes_data cache net api_url headers = ((Inr v, shown), cache)"
    by (simp add: get_indexes_data_def)
  have g: "(\<forall>e. net (prompts_request api_url headers storage_name limit) = Inl e \<longrightarrow>
      fst (generate_prompts net api_url headers storage_name zip_file_name limit d) = Inl e) \<and>
   (\<forall>r. net (prompts_request api_url headers storage_name limit) = Inr r \<and>
        400 \<le> status_code r \<and> status_code r < 600 \<longrightarrow>
      fst (generate_prompts net api_url headers storage_name zip_file_name limit d) =
        Inl (HTTPError (status_code r)))"
    by (simp add: generate_prompts_def raise_for_status_def)
  show ?thesis
    using get_storage_container_names_failure [of net api_url headers]
      get_entity_data_failure [of net api_url headers]
      get_indexes_data_failure [of cache api_url headers net]
      query_index_failure [of net unicode_lower index_names query_type query api_url headers]
      get_source_entity_failure [of net api_url index_name entity_id headers]
      build_index_raises_or_posts [of open_r net api_url headers storage_name index_name
        entity_prompt community_prompt summarize_prompt]
      b c g
    by simp
qed

theorem wrappers_swallow_failures_witness:
  "is_failure (flaky_service (get_request (''http://api'' @ ''/data'') [])) \<and>
   fst (get_storage_container_names flaky_service ''http://api'' []) = Inr PNone \<and>
   is_failure (net_500 (get_request (''http://api'' @ ''/index/config/entity'') [])) \<and>
   fst (get_entity_data net_500 ''http://api'' []) = Inr PNone \<and>
   is_failure (net_500 (get_request (''http://api'' @ ''/index'') [])) \<and>
   fst (fst (get_indexes_data Map.empty net_500 ''http://api'' [])) = Inr PNone \<and>
   get_indexes_data warm_cache net_down ''http://api'' [] =
     ((Inr (PDict [(''index_name'', PList [PStr ''foo''])]), []), warm_cache) \<and>
   is_failure (net_down (query_request keep_text [''foo''] ''global'' ''hello'' ''http://api'' []))
   \<and>
   fst (query_index keep_text net_down [''foo''] ''global'' ''hello'' ''http://api'' []) =
     Inr PNone \<and>
   is_failure (net_500 (get_request
      (''http://api'' @ ''/source/entity/'' @ ''foo'' @ ''/'' @ ''e1'') [])) \<and>
   fst (get_source_entity net_500 ''foo'' ''e1'' ''http://api'' []) = Inr PNone \<and>
   build_index no_files net_500 ''http://api'' [] ''data'' ''foo'' NoFile NoFile NoFile =
     Inr server_error \<and>
   net_down (prompts_request ''http://api'' [] ''data'' 5) =
     Inl (RequestException ''connection refused'') \<and>
   fst (generate_prompts net_down ''http://api'' [] ''data'' ''prompts.zip'' 5 Map.empty) =
     Inl (RequestException ''connection refused'') \<and>
   net_500 (prompts_request ''http://api'' [] ''data'' 5) = Inr server_error \<and>
   fst (generate_prompts net_500 ''http://api'' [] ''data'' ''prompts.zip'' 5 Map.empty) =
     Inl (HTTPError 500)"
proof -
  have f: "is_failure (flaky_service (get_request (''http://api'' @ ''/data'') []))"
    by (simp add: is_failure_def flaky_service_def get_request_def server_error_def)
  have n5: "net_500 req = Inr server_error" for req
    by (simp add: net_500_def)
  have nd: "net_down req = Inl (RequestException ''connection refused'')" for req
    by (simp add: net_down_def)
  have s: "status_code server_error = 500"
    by (simp add: server_error_def)
  have w: "warm_cache (''http://api'', []) =
             Some (PDict [(''index_name'', PList [PStr ''foo''])], [])"
    by (simp add: warm_cache_def)
  have a: "fst (get_storage_container_names flaky_service ''http://api'' []) = Inr PNone"
    using wrappers_swallow_failures
            [where net = flaky_service and api_url = "''http://api''" and headers = "[]"]
          f
    by blast
  have b: "fst (get_entity_data net_500 ''http://api'' []) = Inr PNone \<and>
     fst (fst (get_indexes_data Map.empty net_500 ''http://api'' [])) = Inr PNone \<and>
     fst (get_source_entity net_500 ''foo'' ''e1'' ''http://api'' []) = Inr PNone \<and>
     build_index no_files net_500 ''http://api'' [] ''data'' ''foo'' NoFile NoFile NoFile =
       Inr server_error \<and>
     fst (generate_prompts net_500 ''http://api'' [] ''data'' ''prompts.zip'' 5 Map.empty) =
       Inl (HTTPError 500)"
    using wrappers_swallow_failures
            [where net = net_500 and api_url = "''http://api''" and headers = "[]"
               and cache = Map.empty and index_name = "''foo''" and entity_id = "''e1''"
               and open_r = no_files and storage_name = "''data''" and limit = 5
               and zip_file_name = "''prompts.zip''" and d = Map.empty]
    by (simp add: n5 s is_failure_def)
  have c: "get_indexes_data warm_cache net_down ''http://api'' [] =
       ((Inr (PDict [(''index_name'', PList [PStr ''foo''])]), []), warm_cache) \<and>
     fst (query_index keep_text net_down [''foo''] ''global'' ''hello'' ''http://api'' []) =
       Inr PNone \<and>
     fst (generate_prompts net_down ''http://api'' [] ''data'' ''prompts.zip'' 5 Map.empty) =
       Inl (RequestException ''connection refused'')"
    using wrappers_swallow_failures
            [where net = net_down and api_url = "''http://api''" and headers = "[]"
               and cache = warm_cache and unicode_lower = keep_text
               and index_names = "[''foo'']" and query_type = "''global''"
               and query = "''hello''" and storage_name = "''data''" and limit = 5
               and zip_file_name = "''prompts.zip''" and d = Map.empty]
    by (simp add: nd w is_failure_def)
  show ?thesis
    using a b c f by (simp add: n5 nd s is_failure_def)
qed

text \<open>
  C1 as it is stated fails: \<^verbatim>\<open>build_index\<close> lets a transport exception leave and returns
  the response with status 500 itself, not \<^verbatim>\<open>None\<close>; and the prompt download does not
  raise on the status 204, which is not 200.
\<close>

theorem build_index_hands_failure_on:
  "build_index no_files net_down ''http://api'' [] ''data'' ''foo'' NoFile NoFile NoFile =
     Inl (RequestException ''connection refused'') \<and>
   build_index no_files net_500 ''http://api'' [] ''data'' ''foo'' NoFile NoFile NoFile =
     Inr server_error \<and>
   status_code server_error = 500 \<and>
   status_code no_content = 204 \<and>
   generate_prompts net_204 ''http://api'' [] ''data'' ''prompts.zip'' 5 Map.empty =
     (Inr (), [''prompts.zip'' \<mapsto> []])"
  by (simp add: build_index_def net_down_def net_500_def server_error_def no_content_def
        net_204_def generate_prompts_def raise_for_status_def)

section \<open>Failures of the prompt download and extraction\<close>

lemma fold_write_chunks: "fold (\<lambda>chunk written. written @ chunk) cs acc = acc @ concat cs"
  by (induction cs arbitrary: acc) simp_all

text \<open>
  C7, as the code has it. The path raises and swallows nothing. For every response with a
  client or server error status (400 to 599, the statuses \<^verbatim>\<open>raise_for_status\<close> rejects)
  the download aborts with the raised error and writes nothing; an exception of
  \<^verbatim>\<open>requests.get\<close> leaves it likewise. A response with any other status is written to the
  zip file, and an exception that ends its stream leaves the download after the chunks
  received were written. For every malformed archive, one on which \<^verbatim>\<open>ZipFile\<close> raises or
  on which \<^verbatim>\<open>extractall\<close> raises, the extraction aborts with that error: it is exactly
  what the two calls give. \<^verbatim>\<open>generate_and_extract_prompts\<close> raises what the download
  raises, and otherwise is the extraction of the downloaded file.
\<close>

theorem prompt_path_raises:
  "(\<forall>e. net (prompts_request api_url headers storage_name limit) = Inl e \<longrightarrow>
      generate_prompts net api_url headers storage_name zip_file_name limit d = (Inl e, d)) \<and>
   (\<forall>r. net (prompts_request api_url headers storage_name limit) = Inr r \<and>
        400 \<le> status_code r \<and> status_code r < 600 \<longrightarrow>
      generate_prompts net api_url headers storage_name zip_file_name limit d =
        (Inl (HTTPError (status_code r)), d)) \<and>
   (\<forall>r. net (prompts_request api_url headers storage_name limit) = Inr r \<and>
        \<not> (400 \<le> status_code r \<and> status_code r < 600) \<longrightarrow>
      generate_prompts net api_url headers storage_name zip_file_name limit d =
        ((case stream_error r of None \<Rightarrow> Inr () | Some e \<Rightarrow> Inl e),
         d(zip_file_name \<mapsto> concat (chunks r)))) \<and>
   (\<forall>e. ZipFile d zip_file_name = Inl e \<longrightarrow>
      extract_prompts_from_zip ZipFile extractall zip_file_name d = (Inl e, d)) \<and>
   (\<forall>zip_ref. ZipFile d zip_file_name = Inr zip_ref \<longrightarrow>
      extract_prompts_from_zip ZipFile extractall zip_file_name d = extractall zip_ref d) \<and>
   (\<forall>e d'. generate_prompts net api_url headers storage_name zip_file_name limit d = (Inl e, d') \<longrightarrow>
      generate_and_extract_prompts ZipFile extractall net api_url headers storage_name
        zip_file_name limit d = (Inl e, d')) \<and>
   (\<forall>d'. generate_prompts net api_url headers storage_name zip_file_name limit d = (Inr (), d') \<longrightarrow>
      generate_and_extract_prompts ZipFile extractall net api_url headers storage_name
        zip_file_name limit d = extract_prompts_from_zip ZipFile extractall zip_file_name d')"
  by (auto simp: generate_prompts_def raise_for_status_def extract_prompts_from_zip_def
        generate_and_extract_prompts_def fold_write_chunks split: option.splits)

theorem prompt_path_raises_witness:
  "net_down (prompts_request ''http://api'' [] ''data'' 5) =
     Inl (RequestException ''connection refused'') \<and>
   generate_prompts net_down ''http://api'' [] ''data'' ''prompts.zip'' 5 Map.empty =
     (Inl (RequestException ''connection refused''), Map.empty) \<and>
   net_500 (prompts_request ''http://api'' [] ''data'' 5) = Inr server_error \<and>
   400 \<le> status_code server_error \<and> status_code server_error < 600 \<and>
   generate_prompts net_500 ''http://api'' [] ''data'' ''prompts.zip'' 5 Map.empty =
     (Inl (HTTPError 500), Map.empty) \<and>
   generate_and_extract_prompts reject_zip no_members net_500 ''http://api'' [] ''data''
     ''prompts.zip'' 5 Map.empty = (Inl (HTTPError 500), Map.empty) \<and>
   net_broken (prompts_request ''http://api'' [] ''data'' 5) = Inr broken_stream \<and>
   status_code broken_stream = 200 \<and>
   generate_prompts net_broken ''http://api'' [] ''data'' ''prompts.zip'' 5 Map.empty =
     (Inl (RequestException ''ChunkedEncodingError''), [''prompts.zip'' \<mapsto> ''PK'']) \<and>
   net_300 (prompts_request ''http://api'' [] ''data'' 5) = Inr multiple_choices \<and>
   generate_prompts net_300 ''http://api'' [] ''data'' ''prompts.zip'' 5 Map.empty =
     (Inr (), [''prompts.zip'' \<mapsto> ''<a>'']) \<and>
   reject_zip [''prompts.zip'' \<mapsto> ''<a>''] ''prompts.zip'' = Inl BadZipFile \<and>
   extract_prompts_from_zip reject_zip no_members ''prompts.zip''
     [''prompts.zip'' \<mapsto> ''<a>''] = (Inl BadZipFile, [''prompts.zip'' \<mapsto> ''<a>'']) \<and>
   generate_and_extract_prompts reject_zip no_members net_300 ''http://api'' [] ''data''
     ''prompts.zip'' 5 Map.empty = (Inl BadZipFile, [''prompts.zip'' \<mapsto> ''<a>'']) \<and>
   accept_zip [''prompts.zip'' \<mapsto> ''<a>''] ''prompts.zip'' = Inr () \<and>
   bad_crc () [''prompts.zip'' \<mapsto> ''<a>''] = (Inl BadZipFile, [''prompts.zip'' \<mapsto> ''<a>'']) \<and>
   extract_prompts_from_zip accept_zip bad_crc ''prompts.zip''
     [''prompts.zip'' \<mapsto> ''<a>''] = (Inl BadZipFile, [''prompts.zip'' \<mapsto> ''<a>''])"
proof -
  have n: "net_down (prompts_request ''http://api'' [] ''data'' 5) =
             Inl (RequestException ''connection refused'')"
    "net_500 (prompts_request ''http://api'' [] ''data'' 5) = Inr server_error"
    "net_300 (prompts_request ''http://api'' [] ''data'' 5) = Inr multiple_choices"
    "net_broken (prompts_request ''http://api'' [] ''data'' 5) = Inr broken_stream"
    by (simp_all add: net_down_def net_500_def net_300_def net_broken_def)
  have s: "status_code server_error = 500" "status_code multiple_choices = 300"
    "stream_error multiple_choices = None" "chunks multiple_choices = [''<'', ''a'', ''>'']"
    "status_code broken_stream = 200" "chunks broken_stream = [''P'', ''K'']"
    "stream_error broken_stream = Some (RequestException ''ChunkedEncodingError'')"
    by (simp_all add: server_error_def multiple_choices_def broken_stream_def)
  have z: "reject_zip d zip_file_name = Inl BadZipFile"
    "accept_zip d zip_file_name = Inr ()"
    "bad_crc u d = (Inl BadZipFile, d)" for d zip_file_name u
    by (simp_all add: reject_zip_def accept_zip_def bad_crc_def)
  have a: "generate_prompts net_down ''http://api'' [] ''data'' ''prompts.zip'' 5 Map.empty =
     (Inl (RequestException ''connection refused''), Map.empty)"
    using prompt_path_raises
            [where net = net_down and api_url = "''http://api''" and headers = "[]"
               and storage_name = "''data''" and limit = 5
               and zip_file_name = "''prompts.zip''" and d = Map.empty
               and ZipFile = reject_zip and extractall = no_members]
    by (simp add: n)
  have b: "generate_prompts net_500 ''http://api'' [] ''data'' ''prompts.zip'' 5 Map.empty =
     (Inl (HTTPError 500), Map.empty) \<and>
     generate_and_extract_prompts reject_zip no_members net_500 ''http://api'' [] ''data''
       ''prompts.zip'' 5 Map.empty = (Inl (HTTPError 500), Map.empty)"
    using prompt_path_raises
            [where net = net_500 and api_url = "''http://api''" and headers = "[]"
               and storage_name = "''data''" and limit = 5
               and zip_file_name = "''prompts.zip''" and d = Map.empty
               and ZipFile = reject_zip and extractall = no_members]
    by (simp add: n s)
  have c: "generate_prompts net_300 ''http://api'' [] ''data'' ''prompts.zip'' 5 Map.empty =
     (Inr (), [''prompts.zip'' \<mapsto> ''<a>'']) \<and>
     generate_and_extract_prompts reject_zip no_members net_300 ''http://api'' [] ''data''
       ''prompts.zip'' 5 Map.empty =
     extract_prompts_from_zip reject_zip no_members ''prompts.zip'' [''prompts.zip'' \<mapsto> ''<a>'']"
    using prompt_path_raises
            [where net = net_300 and api_url = "''http://api''" and headers = "[]"
               and storage_name = "''data''" and limit = 5
               and zip_file_name = "''prompts.zip''" and d = Map.empty
               and ZipFile = reject_zip and extractall = no_members]
    by (simp add: n s)
  have d: "extract_prompts_from_zip reject_zip no_members ''prompts.zip''
     [''prompts.zip'' \<mapsto> ''<a>''] = (Inl BadZipFile, [''prompts.zip'' \<mapsto> ''<a>''])"
    using prompt_path_raises
            [where net = net_300 and api_url = "''http://api''" and headers = "[]"
               and storage_name = "''data''" and limit = 5
               and zip_file_name = "''prompts.zip''" and d = "[''prompts.zip'' \<mapsto> ''<a>'']"
               and ZipFile = reject_zip and extractall = no_members]
    by (simp add: z)
  have e: "extract_prompts_from_zip accept_zip bad_crc ''prompts.zip''
     [''prompts.zip'' \<mapsto> ''<a>''] = (Inl BadZipFile, [''prompts.zip'' \<mapsto> ''<a>''])"
    using prompt_path_raises
            [where net = net_300 and api_url = "''http://api''" and headers = "[]"
               and storage_name = "''data''" and limit = 5
               and zip_file_name = "''prompts.zip''" and d = "[''prompts.zip'' \<mapsto> ''<a>'']"
               and ZipFile = accept_zip and extractall = bad_crc]
    by (simp add: z)
  have f: "generate_prompts net_broken ''http://api'' [] ''data'' ''prompts.zip'' 5 Map.empty =
     (Inl (RequestException ''ChunkedEncodingError''), [''prompts.zip'' \<mapsto> ''PK''])"
    using prompt_path_raises
            [where net = net_broken and api_url = "''http://api''" and headers = "[]"
               and storage_name = "''data''" and limit = 5
               and zip_file_name = "''prompts.zip''" and d = Map.empty
               and ZipFile = reject_zip and extractall = no_members]
    by (simp add: n s)
  show ?thesis
    using a b c d e f n s z by simp
qed

text \<open>
  C7 as it is stated fails: the status 300 is not a 2xx status, yet the download returns
  without an exception and writes the body to the zip file.
\<close>

theorem generate_prompts_accepts_300:
  "status_code multiple_choices = 300 \<and>
   generate_prompts net_300 ''http://api'' [] ''data'' ''prompts.zip'' 5 Map.empty =
     (Inr (), [''prompts.zip'' \<mapsto> ''<a>''])"
  by (simp add: multiple_choices_def net_300_def generate_prompts_def raise_for_status_def)

end
